theory Spec2Isabelle
  imports Complex_Main
begin

section \<open>Domain model (core/domain/enums.py, core/domain/models.py)\<close>

text \<open>
  Paths are modelled by their textual form, a \<^typ>\<open>string\<close>; \<open>str(path)\<close> is the
  identity. Characters stand for code points below 256. A \<open>datetime\<close> is a clock reading.
\<close>

type_synonym path = string
type_synonym datetime = nat

datatype TrackType = VIDEO | AUDIO | SUBTITLE | ATTACHMENT

datatype JobStatus = PENDING | RUNNING | COMPLETED | FAILED | CANCELLED

datatype LanguageCode =
    JAPANESE
  | SPANISH | SPANISH_LATIN | SPANISH_SPAIN | SPANISH_MEXICO
  | ENGLISH | ENGLISH_US | ENGLISH_UK
  | PORTUGUESE | PORTUGUESE_BR | PORTUGUESE_PT
  | FRENCH | GERMAN | ITALIAN | CHINESE | KOREAN | RUSSIAN | ARABIC
  | UNKNOWN

text \<open>The \<open>.value\<close> of a \<open>LanguageCode\<close> member.\<close>

fun language_value :: "LanguageCode \<Rightarrow> string" where
  "language_value JAPANESE = ''ja''"
| "language_value SPANISH = ''es''"
| "language_value SPANISH_LATIN = ''es-419''"
| "language_value SPANISH_SPAIN = ''es-ES''"
| "language_value SPANISH_MEXICO = ''es-MX''"
| "language_value ENGLISH = ''en''"
| "language_value ENGLISH_US = ''en-US''"
| "language_value ENGLISH_UK = ''en-GB''"
| "language_value PORTUGUESE = ''pt''"
| "language_value PORTUGUESE_BR = ''pt-BR''"
| "language_value PORTUGUESE_PT = ''pt-PT''"
| "language_value FRENCH = ''fr''"
| "language_value GERMAN = ''de''"
| "language_value ITALIAN = ''it''"
| "language_value CHINESE = ''zh''"
| "language_value KOREAN = ''ko''"
| "language_value RUSSIAN = ''ru''"
| "language_value ARABIC = ''ar''"
| "language_value UNKNOWN = ''und''"

text \<open>
  The frozen dataclass \<open>Track\<close>. The fields \<open>id\<close> and \<open>type\<close> are named
  \<open>track_id\<close> and \<open>track_type\<close> here (\<open>id\<close> is the identity function of HOL).
\<close>

record Track =
  track_id :: int
  track_type :: TrackType
  codec :: string
  language :: LanguageCode
  title :: "string option"
  offset_ms :: int
  is_default :: bool
  is_forced :: bool
  file_path :: "path option"
  bitrate :: "int option"
  duration :: "real option"

text \<open>\<open>Track.with_offset\<close>: a new \<open>Track\<close> built field by field, as the source does.\<close>

definition with_offset :: "Track \<Rightarrow> int \<Rightarrow> Track" where
  "with_offset self new_offset_ms =
     \<lparr> track_id = track_id self,
       track_type = track_type self,
       codec = codec self,
       language = language self,
       title = title self,
       offset_ms = new_offset_ms,
       is_default = is_default self,
       is_forced = is_forced self,
       file_path = file_path self,
       bitrate = bitrate self,
       duration = duration self \<rparr>"

text \<open>
  The mutable dataclass \<open>RemuxJob\<close>. Its fields \<open>video_file\<close>, \<open>output_file\<close> and
  \<open>error_message\<close> carry the prefix \<open>job_\<close>: \<open>Episode\<close> and \<open>RemuxResult\<close> have
  fields of the same names.
\<close>

record RemuxJob =
  job_video_file :: path
  job_output_file :: path
  audio_tracks :: "Track list"
  subtitle_tracks :: "Track list"
  overwrite_source_subtitles :: bool
  include_original_audio :: bool
  include_original_subtitles :: bool
  status :: JobStatus
  progress :: int
  job_error_message :: "string option"
  created_at :: datetime
  started_at :: "datetime option"
  completed_at :: "datetime option"

text \<open>
  The methods of \<open>RemuxJob\<close> mutate the job; here each takes the job (and the reading
  of \<open>datetime.now()\<close>) and returns the job after the call.
\<close>

definition start :: "datetime \<Rightarrow> RemuxJob \<Rightarrow> RemuxJob" where
  "start now self = self\<lparr> status := RUNNING, started_at := Some now, progress := 0 \<rparr>"

definition complete :: "datetime \<Rightarrow> RemuxJob \<Rightarrow> RemuxJob" where
  "complete now self = self\<lparr> status := COMPLETED, completed_at := Some now, progress := 100 \<rparr>"

definition fail :: "datetime \<Rightarrow> string \<Rightarrow> RemuxJob \<Rightarrow> RemuxJob" where
  "fail now msg self =
     self\<lparr> status := FAILED, completed_at := Some now, job_error_message := Some msg \<rparr>"

definition update_progress :: "int \<Rightarrow> RemuxJob \<Rightarrow> RemuxJob" where
  "update_progress p self = self\<lparr> progress := max 0 (min 100 p) \<rparr>"

text \<open>The dataclass \<open>RemuxResult\<close>.\<close>

record RemuxResult =
  success :: bool
  output_file :: "path option"
  error_message :: "string option"
  duration_seconds :: "real option"
  input_size_bytes :: "int option"
  output_size_bytes :: "int option"

text \<open>\<open>RemuxResult(success=False, error_message=msg)\<close>, the other fields at their defaults.\<close>

definition failure_result :: "string \<Rightarrow> RemuxResult" where
  "failure_result msg =
     \<lparr> success = False, output_file = None, error_message = Some msg,
       duration_seconds = None, input_size_bytes = None, output_size_bytes = None \<rparr>"

text \<open>\<open>RemuxResult(success=True, output_file=out)\<close>.\<close>

definition success_result :: "path option \<Rightarrow> RemuxResult" where
  "success_result out =
     \<lparr> success = True, output_file = out, error_message = None,
       duration_seconds = None, input_size_bytes = None, output_size_bytes = None \<rparr>"




section \<open>Exceptions\<close>

text \<open>
  The exceptions the modelled code meets: \<open>ValidationError\<close> (core/utils/validators.py)
  with its message, \<open>ZeroDivisionError\<close>, and any other subclass of \<open>Exception\<close>
  with the text \<open>str(e)\<close> gives. A computation that may raise returns
  \<open>py_exception + 'a\<close>, the exception on the left.
\<close>

datatype py_exception = ValidationError string | ZeroDivisionError | OtherException string

fun str_exception :: "py_exception \<Rightarrow> string" where
  "str_exception (ValidationError msg) = msg"
| "str_exception ZeroDivisionError = ''division by zero''"
| "str_exception (OtherException msg) = msg"

section \<open>Batch results (core/services/batch_service.py)\<close>





section \<open>Text of integers\<close>

text \<open>
  \<open>str(n)\<close> and the \<open>{n}\<close> of an f-string, for an integer \<open>n\<close>: decimal digits,
  most significant first, after a minus sign when \<open>n\<close> is negative.
\<close>

definition digit_char :: "nat \<Rightarrow> char" where
  "digit_char d = ''0123456789'' ! d"

function str_nat :: "nat \<Rightarrow> string" where
  "str_nat n = (if n < 10 then [digit_char n] else str_nat (n div 10) @ [digit_char (n mod 10)])"
  by pat_completeness auto
termination
  by (relation "measure (\<lambda>n. n)") auto

declare str_nat.simps [simp del]

definition str_int :: "int \<Rightarrow> string" where
  "str_int i = (if i < 0 then CHR ''-'' # str_nat (nat (- i)) else str_nat (nat i))"

section \<open>The file system and pathlib\<close>

text \<open>
  What the code asks of the file system and of \<open>pathlib\<close>, as a record of functions:
  \<open>Path.exists\<close>, \<open>Path.is_file\<close>, \<open>Path.is_dir\<close>, \<open>Path.resolve\<close>, \<open>Path.parent\<close>,
  \<open>Path.suffix\<close>, and \<open>Path.mkdir(parents=True, exist_ok=True)\<close>, which gives
  \<open>None\<close> when it succeeds and the text of the exception when it raises.
\<close>

record filesystem =
  path_exists :: "path \<Rightarrow> bool"
  path_is_file :: "path \<Rightarrow> bool"
  path_is_dir :: "path \<Rightarrow> bool"
  path_resolve :: "path \<Rightarrow> path"
  path_parent :: "path \<Rightarrow> path"
  path_suffix :: "path \<Rightarrow> string"
  path_mkdir :: "path \<Rightarrow> string option"

section \<open>File utilities (core/utils/file_utils.py)\<close>

text \<open>\<open>str.lower\<close> on code points below 256.\<close>

definition lower_char :: "char \<Rightarrow> char" where
  "lower_char c =
     (let n = (of_char c :: nat) in
      if (65 \<le> n \<and> n \<le> 90) \<or> (192 \<le> n \<and> n \<le> 222 \<and> n \<noteq> 215)
      then char_of (n + 32) else c)"

definition lower :: "string \<Rightarrow> string" where
  "lower s = map lower_char s"

definition VIDEO_EXTENSIONS :: "string list" where
  "VIDEO_EXTENSIONS = [''.mkv'', ''.mp4'', ''.avi'', ''.mov'', ''.webm'', ''.flv'', ''.m4v'']"

definition AUDIO_EXTENSIONS :: "string list" where
  "AUDIO_EXTENSIONS = [''.m4a'', ''.aac'', ''.mp3'', ''.flac'', ''.opus'', ''.ogg'', ''.wav'']"

definition SUBTITLE_EXTENSIONS :: "string list" where
  "SUBTITLE_EXTENSIONS = [''.ass'', ''.srt'', ''.sub'', ''.ssa'', ''.vtt'']"

definition get_file_extension :: "filesystem \<Rightarrow> path \<Rightarrow> string" where
  "get_file_extension fs file = lower (path_suffix fs file)"

definition is_video_file :: "filesystem \<Rightarrow> path \<Rightarrow> bool" where
  "is_video_file fs file = (get_file_extension fs file \<in> set VIDEO_EXTENSIONS)"

definition is_audio_file :: "filesystem \<Rightarrow> path \<Rightarrow> bool" where
  "is_audio_file fs file = (get_file_extension fs file \<in> set AUDIO_EXTENSIONS)"

definition is_subtitle_file :: "filesystem \<Rightarrow> path \<Rightarrow> bool" where
  "is_subtitle_file fs file = (get_file_extension fs file \<in> set SUBTITLE_EXTENSIONS)"

section \<open>Validators (core/utils/validators.py)\<close>

text \<open>
  A validator returns \<open>None\<close> in the source and raises \<open>ValidationError\<close> otherwise:
  here \<open>Inr ()\<close> and \<open>Inl (ValidationError message)\<close>. \<open>then_validate\<close> sequences two
  checks: the second runs only when the first has not raised.
\<close>

definition then_validate ::
  "py_exception + unit \<Rightarrow> py_exception + unit \<Rightarrow> py_exception + unit" where
  "then_validate a b = (case a of Inl e \<Rightarrow> Inl e | Inr _ \<Rightarrow> b)"

definition validate_file_exists :: "filesystem \<Rightarrow> path \<Rightarrow> string \<Rightarrow> py_exception + unit" where
  "validate_file_exists fs file file_type =
     (if \<not> path_exists fs file
      then Inl (ValidationError (''El '' @ file_type @ '' no existe: '' @ file))
      else if \<not> path_is_file fs file
      then Inl (ValidationError (''La ruta no es un archivo: '' @ file))
      else Inr ())"

definition validate_output_path :: "filesystem \<Rightarrow> path \<Rightarrow> py_exception + unit" where
  "validate_output_path fs output_path =
     (let parent = path_parent fs output_path;
          made = (if \<not> path_exists fs parent then path_mkdir fs parent else None)
      in case made of
           Some e \<Rightarrow> Inl (ValidationError (''No se puede crear el directorio de salida: '' @ e))
         | None \<Rightarrow>
             if path_exists fs output_path \<and> path_is_dir fs output_path
             then Inl (ValidationError (''La ruta de salida es un directorio: '' @ output_path))
             else Inr ())"

definition validate_video_file :: "filesystem \<Rightarrow> path \<Rightarrow> py_exception + unit" where
  "validate_video_file fs file =
     then_validate (validate_file_exists fs file ''archivo de video'')
       (if \<not> is_video_file fs file
        then Inl (ValidationError
               (''El archivo no tiene una extensi'' @ [char_of (243::nat)] @ ''n de video v''
                @ [char_of (225::nat)] @ ''lida: '' @ path_suffix fs file))
        else Inr ())"

text \<open>The two messages of \<open>validate_tracks\<close>.\<close>

definition duplicate_ids_message :: string where
  "duplicate_ids_message = ''Hay pistas con IDs duplicados''"

definition offset_message :: "int \<Rightarrow> int \<Rightarrow> string" where
  "offset_message tid off =
     ''El offset de la pista '' @ str_int tid @ '' es demasiado grande: '' @ str_int off @ ''ms''"

text \<open>The loop over the tracks that checks the offsets: the first track out of range raises.\<close>

fun check_offsets :: "Track list \<Rightarrow> py_exception + unit" where
  "check_offsets [] = Inr ()"
| "check_offsets (track # tracks) =
     (if \<bar>offset_ms track\<bar> > 3600000
      then Inl (ValidationError (offset_message (track_id track) (offset_ms track)))
      else check_offsets tracks)"

definition validate_tracks :: "Track list \<Rightarrow> py_exception + unit" where
  "validate_tracks tracks =
     (if tracks = [] then Inr ()
      else let ids = map track_id tracks in
        if length ids \<noteq> card (set ids)
        then Inl (ValidationError duplicate_ids_message)
        else check_offsets tracks)"

definition validate_remux_job :: "filesystem \<Rightarrow> RemuxJob \<Rightarrow> py_exception + unit" where
  "validate_remux_job fs job =
     then_validate (validate_video_file fs (job_video_file job))
    (then_validate (validate_output_path fs (job_output_file job))
    (then_validate
       (if path_resolve fs (job_output_file job) = path_resolve fs (job_video_file job)
        then Inl (ValidationError ''El archivo de salida no puede ser el mismo que el de entrada'')
        else Inr ())
    (then_validate (validate_tracks (audio_tracks job))
    (then_validate (validate_tracks (subtitle_tracks job))
       (if audio_tracks job = [] \<and> subtitle_tracks job = []
           \<and> \<not> include_original_audio job \<and> \<not> include_original_subtitles job
        then Inl (ValidationError ''No hay pistas para incluir en el remuxeo'')
        else Inr ())))))"

section \<open>The command builder (core/engines/mkvmerge_engine.py)\<close>

text \<open>
  The builder methods extend the list \<open>cmd\<close> in place; here each returns the extended
  list. A \<open>Path\<close> object is always true in a condition, and so is a member of
  \<open>LanguageCode\<close>; a string is true when it is not empty.
\<close>

definition get_track_file :: "filesystem \<Rightarrow> Track \<Rightarrow> path option" where
  "get_track_file fs track =
     (case file_path track of
        Some p \<Rightarrow> Some p
      | None \<Rightarrow>
          (case title track of
             Some t \<Rightarrow> if t \<noteq> [] \<and> path_exists fs t then Some t else None
           | None \<Rightarrow> None))"

definition add_video_input :: "string list \<Rightarrow> RemuxJob \<Rightarrow> string list" where
  "add_video_input cmd job =
     (let audio_sel = (if include_original_audio job then ''all'' else ''none'');
          subtitle_sel =
            (if include_original_subtitles job \<and> \<not> overwrite_source_subtitles job
             then ''all'' else ''none'')
      in cmd @ [''--audio-tracks'', audio_sel] @ [''--subtitle-tracks'', subtitle_sel]
             @ [job_video_file job])"

definition add_audio_track :: "filesystem \<Rightarrow> string list \<Rightarrow> Track \<Rightarrow> string list" where
  "add_audio_track fs cmd track =
     (case get_track_file fs track of
        None \<Rightarrow> cmd
      | Some audio_file \<Rightarrow>
          cmd
          @ (if offset_ms track \<noteq> 0 then [''--sync'', ''0:'' @ str_int (offset_ms track)] else [])
          @ [''--language'', ''0:'' @ language_value (language track)]
          @ (case title track of
               Some t \<Rightarrow> if t \<noteq> [] then [''--track-name'', ''0:'' @ t] else []
             | None \<Rightarrow> [])
          @ (if is_default track then [''--default-track'', ''0:yes''] else [])
          @ [audio_file])"

definition add_subtitle_track :: "filesystem \<Rightarrow> string list \<Rightarrow> Track \<Rightarrow> string list" where
  "add_subtitle_track fs cmd track =
     (case get_track_file fs track of
        None \<Rightarrow> cmd
      | Some subtitle_file \<Rightarrow>
          cmd
          @ (if offset_ms track \<noteq> 0 then [''--sync'', ''0:'' @ str_int (offset_ms track)] else [])
          @ [''--language'', ''0:'' @ language_value (language track)]
          @ (case title track of
               Some t \<Rightarrow> if t \<noteq> [] then [''--track-name'', ''0:'' @ t] else []
             | None \<Rightarrow> [])
          @ (if is_forced track then [''--forced-display-flag'', ''0:1''] else [])
          @ (if is_default track then [''--default-track'', ''0:yes''] else [])
          @ [subtitle_file])"

text \<open>
  \<open>build_command\<close>: the executable, the output, the video input, then one group per
  audio track and one per subtitle track, in list order.
\<close>

definition build_command :: "filesystem \<Rightarrow> string \<Rightarrow> RemuxJob \<Rightarrow> string list" where
  "build_command fs executable_path job =
     (let cmd = [executable_path];
          cmd = cmd @ [''-o'', job_output_file job];
          cmd = add_video_input cmd job;
          cmd = foldl (add_audio_track fs) cmd (audio_tracks job);
          cmd = foldl (add_subtitle_track fs) cmd (subtitle_tracks job)
      in cmd)"

section \<open>Regular expressions (Python's \<open>re\<close>)\<close>

text \<open>
  The patterns of the episode matcher and of the engine use character classes, sequence,
  alternation, greedy repetition, capturing groups and the anchors \<open>^\<close> and \<open>$\<close>. A
  match state is the position in the text, the text that is left and the groups captured
  so far. \<open>matches r st\<close> lists the states in which a match of \<open>r\<close> from \<open>st\<close> can end,
  in the order in which the backtracking matcher of \<open>re\<close> tries them: its head is the
  match \<open>re\<close> reports.
\<close>

type_synonym match_state = "nat \<times> string \<times> string list"

datatype regex =
    Chr "char \<Rightarrow> bool"
  | Seq regex regex
  | Alt regex regex
  | Rep nat "nat option" regex
  | Group regex
  | Bol
  | Eol

text \<open>
  Greedy repetition, at least \<open>lo\<close> and at most \<open>hi\<close> times: one more round is tried
  before stopping here.
\<close>

fun repeat ::
  "nat \<Rightarrow> nat \<Rightarrow> (match_state \<Rightarrow> match_state list) \<Rightarrow> match_state \<Rightarrow> match_state list" where
  "repeat lo 0 step st = (if lo = 0 then [st] else [])"
| "repeat lo (Suc hi) step st =
     concat (map (repeat (lo - 1) hi step) (step st)) @ (if lo = 0 then [st] else [])"

lemma repeat_cong [fundef_cong]:
  "lo = lo' \<Longrightarrow> hi = hi' \<Longrightarrow> st = st' \<Longrightarrow> (\<And>x. step x = step' x)
   \<Longrightarrow> repeat lo hi step st = repeat lo' hi' step' st'"
proof -
  assume a: "lo = lo'" "hi = hi'" "st = st'" "\<And>x. step x = step' x"
  then have "step = step'" by blast
  with a show ?thesis by simp
qed

text \<open>
  An unbounded repetition (\<open>*\<close>, \<open>+\<close>) is bounded by the length of the text that is
  left: the patterns repeat character classes only, and each round takes a character.
  \<open>$\<close> matches at the end of the text and before a newline that ends it; \<open>^\<close> at
  position 0 (no pattern is compiled with \<open>MULTILINE\<close>).
\<close>

fun matches :: "regex \<Rightarrow> match_state \<Rightarrow> match_state list" where
  "matches (Chr P) (i, s, gs) =
     (case s of [] \<Rightarrow> [] | c # r \<Rightarrow> if P c then [(Suc i, r, gs)] else [])"
| "matches (Seq a b) st = concat (map (matches b) (matches a st))"
| "matches (Alt a b) st = matches a st @ matches b st"
| "matches (Rep lo hi a) (i, s, gs) =
     repeat lo (case hi of Some h \<Rightarrow> h | None \<Rightarrow> length s) (matches a) (i, s, gs)"
| "matches (Group a) (i, s, gs) =
     map (\<lambda>(j, r, gs'). (j, r, gs' @ [take (j - i) s])) (matches a (i, s, gs))"
| "matches Bol (i, s, gs) = (if i = 0 then [(i, s, gs)] else [])"
| "matches Eol (i, s, gs) = (if s = [] \<or> s = [CHR 0x0A] then [(i, s, gs)] else [])"

declare matches.simps [simp del]

text \<open>
  \<open>pattern.search(text)\<close>: the first position, from the left, at which the pattern
  matches; the result is \<open>match.groups()\<close>, or \<open>None\<close> when no position matches.
\<close>

fun search_from :: "regex \<Rightarrow> nat \<Rightarrow> string \<Rightarrow> string list option" where
  "search_from r i s =
     (case matches r (i, s, []) of
        (j, rest, gs) # _ \<Rightarrow> Some gs
      | [] \<Rightarrow> (case s of [] \<Rightarrow> None | c # s' \<Rightarrow> search_from r (Suc i) s'))"

declare search_from.simps [simp del]

definition search :: "regex \<Rightarrow> string \<Rightarrow> string list option" where
  "search r s = search_from r 0 s"

text \<open>
  The classes \<open>\d\<close> and \<open>\s\<close> on code points below 256, a class given by its members,
  a literal character, and a literal character under \<open>IGNORECASE\<close>.
\<close>

definition is_digit :: "char \<Rightarrow> bool" where
  "is_digit c = (c \<in> set ''0123456789'')"

definition is_space :: "char \<Rightarrow> bool" where
  "is_space c = (c \<in> set [CHR 0x09, CHR 0x0A, CHR 0x0B, CHR 0x0C, CHR 0x0D,
                            CHR 0x1C, CHR 0x1D, CHR 0x1E, CHR 0x1F, CHR 0x20, CHR 0x85, CHR 0xA0])"


definition lit :: "char \<Rightarrow> regex" where
  "lit p = Chr (\<lambda>c. c = p)"


fun seqs :: "regex list \<Rightarrow> regex" where
  "seqs [] = Rep 0 (Some 0) Bol"
| "seqs [r] = r"
| "seqs (r # rs) = Seq r (seqs rs)"


text \<open>
  \<open>int(s)\<close> on the text of a group: the groups of the patterns below hold decimal digits
  only, any other text raises \<open>ValueError\<close> here.
\<close>

definition digit_value :: "char \<Rightarrow> nat" where
  "digit_value c = of_char c - 48"

definition decimal :: "string \<Rightarrow> nat" where
  "decimal s = foldl (\<lambda>n c. 10 * n + digit_value c) 0 s"

definition py_int :: "string \<Rightarrow> py_exception + int" where
  "py_int s =
     (if s \<noteq> [] \<and> (\<forall>c\<in>set s. is_digit c)
      then Inr (int (decimal s))
      else Inl (OtherException (''invalid literal for int() with base 10: '' @ s)))"

section \<open>The episode matcher (core/services/episode_matcher.py)\<close>




text \<open>
  The loop of \<open>extract_episode_number\<close> over the patterns: the groups of the first
  pattern that matches.
\<close>

fun first_search :: "regex list \<Rightarrow> string \<Rightarrow> string list option" where
  "first_search [] s = None"
| "first_search (p # ps) s =
     (case search p s of Some gs \<Rightarrow> Some gs | None \<Rightarrow> first_search ps s)"





section \<open>The process runner (core/engines/base_engine.py, mkvmerge_engine.py)\<close>

text \<open>
  \<open>_parse_progress\<close> of \<open>MKVMergeEngine\<close>: the pattern
  \<^verbatim>\<open>Progress:\s+(\d+)%\<close>, and \<open>int\<close> of its group.
\<close>

definition PROGRESS_PATTERN :: regex where
  "PROGRESS_PATTERN =
     seqs (map lit ''Progress:''
           @ [Rep 1 None (Chr is_space), Group (Rep 1 None (Chr is_digit)), lit (CHR ''%'')])"

definition parse_progress :: "string \<Rightarrow> py_exception + int option" where
  "parse_progress line =
     (case search PROGRESS_PATTERN line of
        Some groups \<Rightarrow>
          (case py_int (groups ! 0) of Inl e \<Rightarrow> Inl e | Inr n \<Rightarrow> Inr (Some n))
      | None \<Rightarrow> Inr None)"

text \<open>
  \<open>_extract_output_file\<close>: the argument after the first of \<open>-o\<close>, \<open>-y\<close>, \<open>--output\<close>
  that has one. (The second test of the loop body, on \<open>-y\<close>, is never reached: the first
  one returns for every \<open>-y\<close> it could apply to.)
\<close>

fun extract_output_file :: "string list \<Rightarrow> path option" where
  "extract_output_file (arg # next # rest) =
     (if arg \<in> set [''-o'', ''-y'', ''--output''] then Some next
      else extract_output_file (next # rest))"
| "extract_output_file _ = None"

text \<open>
  A run of the external tool: the lines it writes to \<open>stderr\<close> and its return code.
  Starting it may raise. The progress callback is a function of the value it is given and
  of a state \<open>'cb\<close> of its own (what the caller does with the values), which may raise
  too.
\<close>

record process =
  stderr :: "string list"
  returncode :: int

type_synonym 'cb progress_callback = "int \<Rightarrow> 'cb \<Rightarrow> py_exception + 'cb"

text \<open>
  The loop \<open>for line in process.stderr\<close>: without a callback the lines are read and
  dropped; with one, each line that parses gives one call of the callback with the value
  parsed. An exception leaves the loop, with the state the callback had reached.
\<close>

fun monitor ::
  "'cb progress_callback option \<Rightarrow> string list \<Rightarrow> 'cb \<Rightarrow> (py_exception \<times> 'cb) + 'cb" where
  "monitor cb [] st = Inr st"
| "monitor cb (line # lines) st =
     (case cb of
        None \<Rightarrow> monitor cb lines st
      | Some f \<Rightarrow>
          (case parse_progress line of
             Inl e \<Rightarrow> Inl (e, st)
           | Inr None \<Rightarrow> monitor cb lines st
           | Inr (Some p) \<Rightarrow>
               (case f p st of
                  Inl e \<Rightarrow> Inl (e, st)
                | Inr st' \<Rightarrow> monitor cb lines st')))"

text \<open>
  \<open>BaseEngine.execute\<close>: every exception of the \<open>try\<close> block becomes a failure result
  with its text.
\<close>

definition execute ::
  "(string list \<Rightarrow> py_exception + process) \<Rightarrow> string list \<Rightarrow> 'cb progress_callback option
     \<Rightarrow> 'cb \<Rightarrow> 'cb \<times> RemuxResult" where
  "execute popen command cb st =
     (case popen command of
        Inl e \<Rightarrow> (st, failure_result (str_exception e))
      | Inr proc \<Rightarrow>
          (case monitor cb (stderr proc) st of
             Inl (e, st') \<Rightarrow> (st', failure_result (str_exception e))
           | Inr st' \<Rightarrow>
               if returncode proc = 0
               then (st', success_result (extract_output_file command))
               else (st', failure_result
                      (''El proceso fall'' @ [char_of (243::nat)] @ '' con c''
                       @ [char_of (243::nat)] @ ''digo '' @ str_int (returncode proc)))))"


section \<open>The remux service (core/services/remux_service.py)\<close>





section \<open>The batch service (core/services/batch_service.py)\<close>









section \<open>Example values\<close>

definition example_track :: Track where
  "example_track =
     \<lparr> track_id = 0, track_type = AUDIO, codec = ''copy'', language = SPANISH_LATIN,
       title = None, offset_ms = 500, is_default = True, is_forced = False,
       file_path = Some ''ep01.m4a'', bitrate = None, duration = None \<rparr>"

definition pending_job :: RemuxJob where
  "pending_job =
     \<lparr> job_video_file = ''ep01.mkv'', job_output_file = ''out/ep01.mkv'',
       audio_tracks = [example_track], subtitle_tracks = [],
       overwrite_source_subtitles = False, include_original_audio = False,
       include_original_subtitles = True,
       status = PENDING, progress = 0, job_error_message = None,
       created_at = 0, started_at = None, completed_at = None \<rparr>"

definition completed_job :: RemuxJob where
  "completed_job = complete 2 (start 1 pending_job)"

text \<open>A small file system: two media files and the output directory.\<close>

definition suffix_of :: "path \<Rightarrow> string" where
  "suffix_of p =
     (if CHR ''.'' \<in> set p then CHR ''.'' # rev (takeWhile (\<lambda>c. c \<noteq> CHR ''.'') (rev p)) else [])"

definition parent_of :: "path \<Rightarrow> path" where
  "parent_of p =
     (if CHR ''/'' \<in> set p then rev (tl (dropWhile (\<lambda>c. c \<noteq> CHR ''/'') (rev p))) else ''.'')"

definition example_fs :: filesystem where
  "example_fs =
     \<lparr> path_exists = (\<lambda>p. p \<in> set [''ep01.mkv'', ''ep01.m4a'', ''out'']),
       path_is_file = (\<lambda>p. p \<in> set [''ep01.mkv'', ''ep01.m4a'']),
       path_is_dir = (\<lambda>p. p = ''out''),
       path_resolve = (\<lambda>p. p),
       path_parent = parent_of,
       path_suffix = suffix_of,
       path_mkdir = (\<lambda>p. None) \<rparr>"


text \<open>
  A run of the tool that writes the given lines and ends with the given code, a callback
  that records the values it is given, and an engine that raises.
\<close>

definition tool_run :: "string list \<Rightarrow> int \<Rightarrow> string list \<Rightarrow> py_exception + process" where
  "tool_run lines rc command = Inr \<lparr> stderr = lines, returncode = rc \<rparr>"

definition record_progress :: "int list progress_callback" where
  "record_progress p trace = Inr (trace @ [p])"







section \<open>Properties of the domain model\<close>

text \<open>
  C10. For every track \<open>t\<close> and every integer \<open>x\<close>, \<open>t.with_offset(x)\<close> is a track
  whose \<open>offset_ms\<close> is \<open>x\<close> and whose other ten fields are those of \<open>t\<close>. The
  argument \<open>t\<close> is a value: nothing of it changes.
\<close>

theorem with_offset_frame:
  "offset_ms (with_offset t x) = x
   \<and> track_id (with_offset t x) = track_id t
   \<and> track_type (with_offset t x) = track_type t
   \<and> codec (with_offset t x) = codec t
   \<and> language (with_offset t x) = language t
   \<and> title (with_offset t x) = title t
   \<and> is_default (with_offset t x) = is_default t
   \<and> is_forced (with_offset t x) = is_forced t
   \<and> file_path (with_offset t x) = file_path t
   \<and> bitrate (with_offset t x) = bitrate t
   \<and> duration (with_offset t x) = duration t"
  by (simp add: with_offset_def)

text \<open>
  C1, as the specification states it, fails: \<open>start()\<close> on a job that is Completed is
  neither rejected nor without effect (the job becomes Running again), and
  \<open>complete()\<close> on a Pending job makes it Completed.
\<close>

theorem start_on_completed_counterexample:
  "status completed_job = COMPLETED
   \<and> status (start 3 completed_job) = RUNNING
   \<and> start 3 completed_job \<noteq> completed_job
   \<and> status pending_job = PENDING
   \<and> status (complete 3 pending_job) = COMPLETED"
  by (simp add: completed_job_def pending_job_def start_def complete_def)

text \<open>
  C1, amended. The three transitions are unguarded assignments: from every status,
  \<open>start()\<close> sets Running, records the start time and resets the progress to 0;
  \<open>complete()\<close> sets Completed with progress 100; \<open>fail(reason)\<close> sets Failed and
  records the reason. In particular they do so from the statuses the state machine
  names (Pending for \<open>start\<close>, Running for \<open>complete\<close>, Pending or Running for
  \<open>fail\<close>).
\<close>

theorem job_transitions_unguarded:
  "status (start now j) = RUNNING
   \<and> started_at (start now j) = Some now
   \<and> progress (start now j) = 0
   \<and> status (complete now j) = COMPLETED
   \<and> completed_at (complete now j) = Some now
   \<and> progress (complete now j) = 100
   \<and> status (fail now reason j) = FAILED
   \<and> completed_at (fail now reason j) = Some now
   \<and> job_error_message (fail now reason j) = Some reason"
  by (simp add: start_def complete_def fail_def)




section \<open>Properties of the validators\<close>

lemma str_int_0: "str_int 0 = ''0''"
  by (simp add: str_int_def str_nat.simps digit_char_def)

lemma str_int_500: "str_int 500 = ''500''"
  by (simp add: str_int_def str_nat.simps digit_char_def)

lemma str_int_3600001: "str_int 3600001 = ''3600001''"
  by (simp add: str_int_def str_nat.simps digit_char_def)

lemma check_offsets_ok:
  "(check_offsets ts = Inr ()) = (\<forall>t\<in>set ts. \<bar>offset_ms t\<bar> \<le> 3600000)"
  by (induction ts) auto

lemma check_offsets_raises:
  "\<exists>t\<in>set ts. \<bar>offset_ms t\<bar> > 3600000 \<Longrightarrow>
   \<exists>t\<in>set ts. \<bar>offset_ms t\<bar> > 3600000
      \<and> check_offsets ts = Inl (ValidationError (offset_message (track_id t) (offset_ms t)))"
  by (induction ts) auto

text \<open>\<open>len(ids) != len(set(ids))\<close> says that two tracks share an id.\<close>

lemma duplicate_ids_test:
  "(length (map track_id ts) \<noteq> card (set (map track_id ts))) = (\<not> distinct (map track_id ts))"
  using card_distinct distinct_card by metis

lemma validate_tracks_cases:
  "validate_tracks ts =
     (if \<not> distinct (map track_id ts) then Inl (ValidationError duplicate_ids_message)
      else check_offsets ts)"
proof (cases "ts = []")
  case True
  then show ?thesis by (simp add: validate_tracks_def)
next
  case False
  then show ?thesis
    using duplicate_ids_test [of ts] by (simp add: validate_tracks_def Let_def)
qed

lemma then_validate_Inl [simp]: "then_validate (Inl e) b = Inl e"
  by (simp add: then_validate_def)

lemma then_validate_Inr [simp]: "then_validate (Inr u) b = b"
  by (simp add: then_validate_def)

lemma then_validate_raises_right:
  "\<exists>e. b = Inl e \<Longrightarrow> \<exists>e. then_validate a b = Inl e"
  by (cases a) auto

lemma validate_remux_job_tracks:
  assumes "(\<exists>e. validate_tracks (audio_tracks job) = Inl e)
           \<or> (\<exists>e. validate_tracks (subtitle_tracks job) = Inl e)"
  shows "\<exists>e. validate_remux_job fs job = Inl e"
proof -
  have h: "\<exists>e. then_validate (validate_tracks (audio_tracks job))
                 (then_validate (validate_tracks (subtitle_tracks job)) x) = Inl e" for x
    using assms
    by (cases "validate_tracks (audio_tracks job)"; cases "validate_tracks (subtitle_tracks job)")
       auto
  show ?thesis
    unfolding validate_remux_job_def
    by (rule then_validate_raises_right, rule then_validate_raises_right,
        rule then_validate_raises_right, rule h)
qed

lemma validate_tracks_raises_iff:
  "(\<exists>e. validate_tracks ts = Inl e) \<longleftrightarrow>
     ((\<exists>t\<in>set ts. \<bar>offset_ms t\<bar> > 3600000) \<or> \<not> distinct (map track_id ts))"
proof (cases "\<exists>t\<in>set ts. \<bar>offset_ms t\<bar> > 3600000")
  case True
  from check_offsets_raises [OF True] show ?thesis
    using True by (auto simp: validate_tracks_cases)
next
  case False
  then have "check_offsets ts = Inr ()"
    by (simp add: check_offsets_ok not_less)
  then show ?thesis
    using False by (auto simp: validate_tracks_cases)
qed

text \<open>
  C6, as the specification states it, fails: two tracks that share an id and are both
  within the bound fail the validation with the message for duplicated ids, which is not
  the message for the bound.
\<close>

theorem duplicate_ids_message_counterexample:
  "\<not> ((\<exists>tid off. validate_tracks [example_track, example_track]
                    = Inl (ValidationError (offset_message tid off)))
      \<longleftrightarrow> ((\<exists>t\<in>set [example_track, example_track]. \<bar>offset_ms t\<bar> > 3600000)
           \<or> \<not> distinct (map track_id [example_track, example_track])))"
  by (simp add: validate_tracks_cases duplicate_ids_message_def offset_message_def)

text \<open>
  C6, amended. The validation of a track list fails if and only if some track has
  \<open>|offset_ms| > 3,600,000\<close> or two tracks share an id. Ids are checked first: when two
  tracks share an id the message is the one for duplicated ids; when the ids are distinct
  and a track is out of range the message is the one for the bound, naming such a track
  and its offset. A job with such a track fails the validation of the job. An offset of
  \<open>3_600_001\<close> fails and one of exactly \<open>3_600_000\<close> passes.
\<close>

theorem validate_tracks_fails_iff:
  "((\<exists>e. validate_tracks ts = Inl e) \<longleftrightarrow>
      ((\<exists>t\<in>set ts. \<bar>offset_ms t\<bar> > 3600000) \<or> \<not> distinct (map track_id ts)))
   \<and> (\<not> distinct (map track_id ts) \<longrightarrow>
        validate_tracks ts = Inl (ValidationError duplicate_ids_message))
   \<and> (distinct (map track_id ts) \<and> (\<exists>t\<in>set ts. \<bar>offset_ms t\<bar> > 3600000) \<longrightarrow>
        (\<exists>t\<in>set ts. \<bar>offset_ms t\<bar> > 3600000
           \<and> validate_tracks ts = Inl (ValidationError (offset_message (track_id t) (offset_ms t)))))
   \<and> ((\<forall>t\<in>set ts. \<bar>offset_ms t\<bar> \<le> 3600000) \<and> distinct (map track_id ts) \<longrightarrow>
        validate_tracks ts = Inr ())
   \<and> ((\<exists>t\<in>set (audio_tracks job) \<union> set (subtitle_tracks job). \<bar>offset_ms t\<bar> > 3600000) \<longrightarrow>
        (\<exists>e. validate_remux_job fs job = Inl e))"
proof (intro conjI impI)
  show "(\<exists>e. validate_tracks ts = Inl e) \<longleftrightarrow>
      ((\<exists>t\<in>set ts. \<bar>offset_ms t\<bar> > 3600000) \<or> \<not> distinct (map track_id ts))"
    by (rule validate_tracks_raises_iff)
next
  assume "\<not> distinct (map track_id ts)"
  then show "validate_tracks ts = Inl (ValidationError duplicate_ids_message)"
    by (simp add: validate_tracks_cases)
next
  assume a: "distinct (map track_id ts) \<and> (\<exists>t\<in>set ts. \<bar>offset_ms t\<bar> > 3600000)"
  then have "\<exists>t\<in>set ts. \<bar>offset_ms t\<bar> > 3600000" by simp
  from check_offsets_raises [OF this] a
  show "\<exists>t\<in>set ts. \<bar>offset_ms t\<bar> > 3600000
           \<and> validate_tracks ts = Inl (ValidationError (offset_message (track_id t) (offset_ms t)))"
    by (simp add: validate_tracks_cases)
next
  assume "(\<forall>t\<in>set ts. \<bar>offset_ms t\<bar> \<le> 3600000) \<and> distinct (map track_id ts)"
  then show "validate_tracks ts = Inr ()"
    by (simp add: validate_tracks_cases check_offsets_ok)
next
  assume "\<exists>t\<in>set (audio_tracks job) \<union> set (subtitle_tracks job). \<bar>offset_ms t\<bar> > 3600000"
  then have "(\<exists>e. validate_tracks (audio_tracks job) = Inl e)
           \<or> (\<exists>e. validate_tracks (subtitle_tracks job) = Inl e)"
    unfolding validate_tracks_raises_iff by blast
  then show "\<exists>e. validate_remux_job fs job = Inl e"
    by (rule validate_remux_job_tracks)
qed

theorem validate_tracks_fails_iff_witness:
  "validate_tracks [example_track\<lparr> offset_ms := 3600001 \<rparr>]
     = Inl (ValidationError ''El offset de la pista 0 es demasiado grande: 3600001ms'')
   \<and> validate_tracks [example_track\<lparr> offset_ms := 3600000 \<rparr>] = Inr ()
   \<and> validate_tracks [example_track, example_track]
     = Inl (ValidationError ''Hay pistas con IDs duplicados'')
   \<and> (\<exists>e. validate_remux_job example_fs
            (pending_job\<lparr> audio_tracks := [example_track\<lparr> offset_ms := 3600001 \<rparr>] \<rparr>) = Inl e)"
  using validate_tracks_fails_iff [of "[example_track\<lparr> offset_ms := 3600001 \<rparr>]"
      "pending_job\<lparr> audio_tracks := [example_track\<lparr> offset_ms := 3600001 \<rparr>] \<rparr>" example_fs]
    validate_tracks_fails_iff [of "[example_track\<lparr> offset_ms := 3600000 \<rparr>]"]
    validate_tracks_fails_iff [of "[example_track, example_track]"]
  by (simp add: example_track_def offset_message_def str_int_0 str_int_3600001
      duplicate_ids_message_def)

section \<open>Properties of the command builder\<close>

lemma add_audio_track_append:
  "add_audio_track fs cmd t = cmd @ add_audio_track fs [] t"
  by (simp add: add_audio_track_def split: option.splits)

lemma add_subtitle_track_append:
  "add_subtitle_track fs cmd t = cmd @ add_subtitle_track fs [] t"
  by (simp add: add_subtitle_track_def split: option.splits)

lemma foldl_add_audio_track:
  "foldl (add_audio_track fs) cmd ts = cmd @ concat (map (add_audio_track fs []) ts)"
proof (induction ts arbitrary: cmd)
  case Nil
  show ?case by simp
next
  case (Cons t ts)
  show ?case
    using add_audio_track_append [of fs cmd t] by (simp add: Cons.IH)
qed

lemma foldl_add_subtitle_track:
  "foldl (add_subtitle_track fs) cmd ts = cmd @ concat (map (add_subtitle_track fs []) ts)"
proof (induction ts arbitrary: cmd)
  case Nil
  show ?case by simp
next
  case (Cons t ts)
  show ?case
    using add_subtitle_track_append [of fs cmd t] by (simp add: Cons.IH)
qed

text \<open>The command is the executable, the output, the video input and the track groups.\<close>

lemma build_command_shape:
  "build_command fs exe job =
     [exe, ''-o'', job_output_file job,
      ''--audio-tracks'', (if include_original_audio job then ''all'' else ''none''),
      ''--subtitle-tracks'',
      (if include_original_subtitles job \<and> \<not> overwrite_source_subtitles job
       then ''all'' else ''none''),
      job_video_file job]
     @ concat (map (add_audio_track fs []) (audio_tracks job))
     @ concat (map (add_subtitle_track fs []) (subtitle_tracks job))"
  by (simp add: build_command_def add_video_input_def foldl_add_audio_track
      foldl_add_subtitle_track Let_def)

text \<open>
  C4. For a job whose one extra audio track has offset 500, language es-419, the default
  flag and a file, and which excludes the original audio, the command is: the executable
  and the output; \<open>--audio-tracks none\<close> and the subtitle selector, before the path of
  the original video; then \<open>--sync 0:500\<close>, \<open>--language 0:es-419\<close>, the track name when
  the track has a title, \<open>--default-track 0:yes\<close>, and the audio file. What follows the
  audio file are the groups of the subtitle tracks only: no flag of the audio track comes
  after its path.
\<close>

theorem build_command_order:
  assumes "audio_tracks job = [t]"
    and "offset_ms t = 500" and "language t = SPANISH_LATIN" and "is_default t"
    and "file_path t = Some audio_file"
    and "\<not> include_original_audio job"
  shows "build_command fs exe job =
           [exe, ''-o'', job_output_file job,
            ''--audio-tracks'', ''none'',
            ''--subtitle-tracks'',
            (if include_original_subtitles job \<and> \<not> overwrite_source_subtitles job
             then ''all'' else ''none''),
            job_video_file job,
            ''--sync'', ''0:500'',
            ''--language'', ''0:es-419'']
           @ (case title t of Some n \<Rightarrow> if n \<noteq> [] then [''--track-name'', ''0:'' @ n] else []
              | None \<Rightarrow> [])
           @ [''--default-track'', ''0:yes'', audio_file]
           @ concat (map (add_subtitle_track fs []) (subtitle_tracks job))"
  using assms
  by (simp add: build_command_shape add_audio_track_def get_track_file_def str_int_500)

theorem build_command_order_witness:
  "audio_tracks pending_job = [example_track]
   \<and> build_command example_fs ''mkvmerge'' pending_job =
       [''mkvmerge'', ''-o'', ''out/ep01.mkv'',
        ''--audio-tracks'', ''none'', ''--subtitle-tracks'', ''all'', ''ep01.mkv'',
        ''--sync'', ''0:500'', ''--language'', ''0:es-419'', ''--default-track'', ''0:yes'',
        ''ep01.m4a'']"
  using build_command_order [of pending_job example_track "''ep01.m4a''" example_fs "''mkvmerge''"]
  by (simp add: pending_job_def example_track_def)

text \<open>
  C7. In the command, the selector that follows \<open>--subtitle-tracks\<close> for the original
  video is \<open>none\<close> whenever \<open>overwrite_source_subtitles\<close> is true, also when
  \<open>include_original_subtitles\<close> is true; it is \<open>all\<close> exactly when
  \<open>include_original_subtitles\<close> is true and \<open>overwrite_source_subtitles\<close> is false.
\<close>

theorem overwrite_forces_subtitle_exclusion:
  "\<exists>audio_sel subtitle_sel rest.
     build_command fs exe job =
       [exe, ''-o'', job_output_file job, ''--audio-tracks'', audio_sel,
        ''--subtitle-tracks'', subtitle_sel, job_video_file job] @ rest
     \<and> (overwrite_source_subtitles job \<longrightarrow> subtitle_sel = ''none'')
     \<and> (subtitle_sel = ''all'' \<longleftrightarrow>
          include_original_subtitles job \<and> \<not> overwrite_source_subtitles job)
     \<and> (subtitle_sel = ''all'' \<or> subtitle_sel = ''none'')"
  by (simp add: build_command_shape)

theorem overwrite_forces_subtitle_exclusion_witness:
  "overwrite_source_subtitles (pending_job\<lparr> overwrite_source_subtitles := True \<rparr>)
   \<and> include_original_subtitles (pending_job\<lparr> overwrite_source_subtitles := True \<rparr>)
   \<and> build_command example_fs ''mkvmerge'' (pending_job\<lparr> overwrite_source_subtitles := True \<rparr>) ! 6
       = ''none''
   \<and> build_command example_fs ''mkvmerge'' pending_job ! 6 = ''all''"
  using overwrite_forces_subtitle_exclusion
      [of example_fs "''mkvmerge''" "pending_job\<lparr> overwrite_source_subtitles := True \<rparr>"]
    overwrite_forces_subtitle_exclusion [of example_fs "''mkvmerge''" pending_job]
  by (auto simp: pending_job_def)


section \<open>Properties of the episode matcher\<close>

lemma matches_Chr_Cons [simp]:
  "matches (Chr P) (i, c # r, gs) = (if P c then [(Suc i, r, gs)] else [])"
  by (simp add: matches.simps)


lemma matches_Chr_Nil [simp]: "matches (Chr P) (i, [], gs) = []"
  by (simp add: matches.simps)













text \<open>
  The loop over the patterns gives the groups of the pattern of least index that matches.
\<close>

lemma first_search_priority:
  "first_search ps s = Some gs \<longleftrightarrow>
     (\<exists>k<length ps. search (ps ! k) s = Some gs \<and> (\<forall>j<k. search (ps ! j) s = None))"
proof (induction ps)
  case Nil
  show ?case by simp
next
  case (Cons p ps)
  show ?case
  proof (cases "search p s")
    case (Some g)
    have "(\<exists>k<length (p # ps). search ((p # ps) ! k) s = Some gs
             \<and> (\<forall>j<k. search ((p # ps) ! j) s = None)) \<longleftrightarrow> g = gs"
    proof
      assume "\<exists>k<length (p # ps). search ((p # ps) ! k) s = Some gs
             \<and> (\<forall>j<k. search ((p # ps) ! j) s = None)"
      then obtain k where k: "search ((p # ps) ! k) s = Some gs"
        "\<forall>j<k. search ((p # ps) ! j) s = None" by blast
      have "k = 0"
      proof (rule ccontr)
        assume "k \<noteq> 0"
        then have "search ((p # ps) ! 0) s = None" using k(2) by blast
        with Some show False by simp
      qed
      with k(1) Some show "g = gs" by simp
    next
      assume "g = gs"
      with Some have "search ((p # ps) ! 0) s = Some gs" by simp
      then show "\<exists>k<length (p # ps). search ((p # ps) ! k) s = Some gs
             \<and> (\<forall>j<k. search ((p # ps) ! j) s = None)"
        by (intro exI [of _ 0]) simp
    qed
    with Some show ?thesis by simp
  next
    case None
    have "(\<exists>k<length (p # ps). search ((p # ps) ! k) s = Some gs
             \<and> (\<forall>j<k. search ((p # ps) ! j) s = None))
          \<longleftrightarrow> (\<exists>k<length ps. search (ps ! k) s = Some gs \<and> (\<forall>j<k. search (ps ! j) s = None))"
    proof
      assume "\<exists>k<length (p # ps). search ((p # ps) ! k) s = Some gs
             \<and> (\<forall>j<k. search ((p # ps) ! j) s = None)"
      then obtain k where k: "k < length (p # ps)" "search ((p # ps) ! k) s = Some gs"
        "\<forall>j<k. search ((p # ps) ! j) s = None" by blast
      from k(2) None obtain k' where k': "k = Suc k'" by (cases k) auto
      have "\<forall>j<k'. search (ps ! j) s = None"
      proof (intro allI impI)
        fix j assume "j < k'"
        then have "Suc j < k" using k' by simp
        with k(3) have "search ((p # ps) ! Suc j) s = None" by blast
        then show "search (ps ! j) s = None" by simp
      qed
      with k k' show "\<exists>k<length ps. search (ps ! k) s = Some gs \<and> (\<forall>j<k. search (ps ! j) s = None)"
        by (intro exI [of _ k']) simp
    next
      assume "\<exists>k<length ps. search (ps ! k) s = Some gs \<and> (\<forall>j<k. search (ps ! j) s = None)"
      then obtain k where k: "k < length ps" "search (ps ! k) s = Some gs"
        "\<forall>j<k. search (ps ! j) s = None" by blast
      have "\<forall>j<Suc k. search ((p # ps) ! j) s = None"
      proof (intro allI impI)
        fix j assume "j < Suc k"
        then show "search ((p # ps) ! j) s = None"
          using None k(3) by (cases j) auto
      qed
      with k show "\<exists>k<length (p # ps). search ((p # ps) ! k) s = Some gs
             \<and> (\<forall>j<k. search ((p # ps) ! j) s = None)"
        by (intro exI [of _ "Suc k"]) simp
    qed
    with None Cons.IH show ?thesis by simp
  qed
qed



section \<open>Properties of the process runner\<close>

lemma parse_progress_150: "parse_progress ''Progress: 150%'' = Inr (Some 150)"
  by code_simp

text \<open>A value that is parsed is not negative, and a line that does not parse gives no call.\<close>

lemma parse_progress_nonneg: "parse_progress line = Inr (Some p) \<Longrightarrow> 0 \<le> p"
  by (auto simp: parse_progress_def py_int_def split: option.splits sum.splits if_splits)

lemma monitor_no_match:
  "parse_progress line = Inr None \<Longrightarrow> monitor cb (line # lines) st = monitor cb lines st"
  by (cases cb) simp_all

text \<open>
  C8. The line \<open>Progress: 150%\<close> matches the pattern of \<open>_parse_progress\<close>, which takes
  any run of digits: the value parsed is 150, and \<open>execute\<close> hands 150 to the progress
  callback, a value outside the range 0 to 100 that the docstrings of \<open>_parse_progress\<close>
  and of \<open>execute\<close> promise.
\<close>

theorem progress_above_100:
  "parse_progress ''Progress: 150%'' = Inr (Some 150)
   \<and> fst (execute (tool_run [''Progress: 150%''] 0) [''mkvmerge'', ''-o'', ''out.mkv'']
            (Some record_progress) []) = [150]"
  by (simp add: parse_progress_150 execute_def tool_run_def record_progress_def)

section \<open>Properties of the remux service\<close>





section \<open>Properties of the batch service\<close>











end
